theory Spec2Isabelle
  imports Complex_Main
begin

section \<open>Values\<close>

text \<open>
  The lighting controllers of the printer firmware are Python classes. Python floats are
  modelled as \<^typ>\<open>real\<close> (rounding, infinities and NaN are outside the model), Python
  strings as \<^typ>\<open>string\<close>, and every exception the code can raise as a value of
  \<open>error\<close>. A method that mutates its object returns either the new state, or the
  error together with the state the object had when the exception left the method.
\<close>

datatype error = AssertionError | NotFound | KeyError | IndexError

type_synonym 's outcome = "(error \<times> 's) + 's"

definition then_do :: "'s outcome \<Rightarrow> ('s \<Rightarrow> 's outcome) \<Rightarrow> 's outcome" where
  "then_do r f = (case r of Inl x \<Rightarrow> Inl x | Inr s \<Rightarrow> f s)"

definition state_after :: "'s outcome \<Rightarrow> 's" where
  "state_after r = (case r of Inl (e, s) \<Rightarrow> s | Inr s \<Rightarrow> s)"

text \<open>
  A setting is a boolean (the mode flags) or a float (\<open>user_brightness\<close>). Python reads
  either kind as a truth value (\<open>if x:\<close>) and as a number (\<open>True\<close> is \<open>1\<close>).
\<close>

datatype pvalue = PBool bool | PFloat real

fun truthy :: "pvalue \<Rightarrow> bool" where
  "truthy (PBool b) = b"
| "truthy (PFloat x) = (x \<noteq> 0)"

fun to_float :: "pvalue \<Rightarrow> real" where
  "to_float (PBool b) = (if b then 1 else 0)"
| "to_float (PFloat x) = x"

text \<open>
  The values of the printer's remote properties (\<open>state\<close>, \<open>job_state\<close>,
  \<open>interaction_required\<close>) arrive untyped over the message bus.
\<close>

datatype variant = VNone | VBool bool | VNum real | VStr string

fun variant_truthy :: "variant \<Rightarrow> bool" where
  "variant_truthy VNone = False"
| "variant_truthy (VBool b) = b"
| "variant_truthy (VNum x) = (x \<noteq> 0)"
| "variant_truthy (VStr s) = (s \<noteq> [])"

section \<open>Colors and effects\<close>

text \<open>
  Modelled from the spec: \<open>griffin.math.hsvColor.HsvColor\<close> is not among the sources. It
  is a mutable triple of floats; assigning an attribute stores the value as it is. The
  third attribute is called \<open>value\<close> in the source.
\<close>

record hsv_color =
  hue :: real
  saturation :: real
  val :: real

definition HsvColor :: "real \<Rightarrow> real \<Rightarrow> real \<Rightarrow> hsv_color" where
  "HsvColor h s v = \<lparr>hue = h, saturation = s, val = v\<rparr>"

text \<open>
  Modelled from the spec: the module \<open>colorTheme\<close> is not among the sources. Its named
  colors are taken as a parameter.
\<close>

record color_theme =
  WHITE :: hsv_color
  BLACK :: hsv_color
  PURPLE :: hsv_color
  CYAN :: hsv_color
  YELLOW :: hsv_color
  RED :: hsv_color
  GREEN :: hsv_color
  ULTIMAKER :: hsv_color

text \<open>
  Modelled from the spec: the effect classes are not among the sources. An effect is
  its constructor's arguments: \<open>StaticEffect(color)\<close>, \<open>FadeEffect(color, duration)\<close>,
  \<open>BlinkEffect(color, frequency, count)\<close>, \<open>GlowEffect(color_a, color_b, frequency)\<close>.
  Static and Glow never complete.
\<close>

datatype effect =
    StaticEffect hsv_color
  | FadeEffect hsv_color real
  | BlinkEffect hsv_color real real
  | GlowEffect hsv_color hsv_color real

fun never_completes :: "effect \<Rightarrow> bool" where
  "never_completes (StaticEffect c) = True"
| "never_completes (GlowEffect a b f) = True"
| "never_completes (FadeEffect c d) = False"
| "never_completes (BlinkEffect c f n) = False"

text \<open>
  Modelled from the spec: \<open>AbstractController\<close>, which owns the effect queue, is not among
  the sources. The head of the queue is the active effect. Enqueuing a steady-state effect
  removes the other steady-state effects and appends; enqueuing a transient effect appends.
  \<open>_hasEffectInQueue\<close> is true when more than one entry is pending.
\<close>

definition enqueueEffect :: "effect \<Rightarrow> effect list \<Rightarrow> effect list" where
  "enqueueEffect e q =
     (if never_completes e then filter (\<lambda>x. \<not> never_completes x) q @ [e] else q @ [e])"

definition queue_has_effect :: "effect list \<Rightarrow> bool" where
  "queue_has_effect q = (1 < length q)"

section \<open>The persisted settings store\<close>

text \<open>
  Modelled from the spec: \<open>registryFile.RegistryFile\<close> is not among the sources. It is a
  key-value store with \<open>has\<close>, typed \<open>get\<close>/\<open>set\<close> and \<open>forceSave\<close>: \<open>mem\<close> is the
  content the process works on, \<open>disk\<close> what a reload would read.
\<close>

record registry_file =
  mem :: "string \<rightharpoonup> pvalue"
  disk :: "string \<rightharpoonup> pvalue"

definition RegistryFile :: "(string \<rightharpoonup> pvalue) \<Rightarrow> registry_file" where
  "RegistryFile d = \<lparr>mem = d, disk = d\<rparr>"

definition has :: "registry_file \<Rightarrow> string \<Rightarrow> bool" where
  "has r k = (mem r k \<noteq> None)"

definition registry_set :: "registry_file \<Rightarrow> string \<Rightarrow> pvalue \<Rightarrow> registry_file" where
  "registry_set r k v = r\<lparr>mem := (mem r)(k \<mapsto> v)\<rparr>"

definition setAsBoolean :: "registry_file \<Rightarrow> string \<Rightarrow> bool \<Rightarrow> registry_file" where
  "setAsBoolean r k b = registry_set r k (PBool b)"

definition setAsFloat :: "registry_file \<Rightarrow> string \<Rightarrow> real \<Rightarrow> registry_file" where
  "setAsFloat r k x = registry_set r k (PFloat x)"

definition getAsBoolean :: "registry_file \<Rightarrow> string \<Rightarrow> error + bool" where
  "getAsBoolean r k = (case mem r k of None \<Rightarrow> Inl KeyError | Some v \<Rightarrow> Inr (truthy v))"

definition getAsFloat :: "registry_file \<Rightarrow> string \<Rightarrow> error + real" where
  "getAsFloat r k = (case mem r k of None \<Rightarrow> Inl KeyError | Some v \<Rightarrow> Inr (to_float v))"

definition forceSave :: "registry_file \<Rightarrow> registry_file" where
  "forceSave r = r\<lparr>disk := mem r\<rparr>"

section \<open>MainLightingController\<close>

definition MODE_FLAG_GLOW_WHEN_FINISHED :: string where
  "MODE_FLAG_GLOW_WHEN_FINISHED = ''glow_when_print_is_finished''"

definition MODE_FLAG_ON_WHEN_PRINTING :: string where
  "MODE_FLAG_ON_WHEN_PRINTING = ''on_when_printing''"

definition MODE_FLAG_PARTY :: string where
  "MODE_FLAG_PARTY = ''party''"

definition RUNTIME_FLAG_AUTHENTICATING :: string where
  "RUNTIME_FLAG_AUTHENTICATING = ''authenticating''"

definition RUNTIME_FLAG_MESSAGE :: string where
  "RUNTIME_FLAG_MESSAGE = ''message''"

definition ALL_MODE_FLAGS :: "string list" where
  "ALL_MODE_FLAGS =
     [MODE_FLAG_GLOW_WHEN_FINISHED, MODE_FLAG_ON_WHEN_PRINTING, MODE_FLAG_PARTY]"

definition ALL_RUNTIME_FLAGS :: "string list" where
  "ALL_RUNTIME_FLAGS = [RUNTIME_FLAG_AUTHENTICATING, RUNTIME_FLAG_MESSAGE]"

definition DEFAULT_MODE_SETTINGS :: "string \<rightharpoonup> bool" where
  "DEFAULT_MODE_SETTINGS =
     [MODE_FLAG_GLOW_WHEN_FINISHED \<mapsto> True,
      MODE_FLAG_ON_WHEN_PRINTING \<mapsto> False,
      MODE_FLAG_PARTY \<mapsto> False]"

definition STARTUP_FADE_TIME :: real where
  "STARTUP_FADE_TIME = 6"

definition DEFAULT_GLOW_FREQUENCY :: real where
  "DEFAULT_GLOW_FREQUENCY = 1 / 10"

definition DARK_COLOR_BRIGHTNESS_FACTOR :: real where
  "DARK_COLOR_BRIGHTNESS_FACTOR = 3 / 10"

text \<open>
  The controller's fields. \<open>property_container\<close> holds the value of each non-volatile
  property by name. \<open>effect_queue\<close> is the queue of the base class. \<open>timers\<close> are the
  one-shot timers started and not yet fired, each with its name and delay; the callback
  of every timer this class starts is \<open>__update\<close>. \<open>random_source\<close> is the sequence of
  numbers that \<open>random.random()\<close> will return, \<open>random_draws\<close> how many were taken.
\<close>

record MainLightingController =
  colorTheme :: color_theme
  property_container :: "string \<rightharpoonup> pvalue"
  preferences :: registry_file
  main_color :: hsv_color
  runtime_flags :: "string \<rightharpoonup> bool"
  printer_state :: variant
  job_state :: variant
  effect_queue :: "effect list"
  timers :: "(string \<times> real) list"
  random_source :: "nat \<Rightarrow> real"
  random_draws :: nat

definition queueEffect :: "effect \<Rightarrow> MainLightingController \<Rightarrow> MainLightingController" where
  "queueEffect e s = s\<lparr>effect_queue := enqueueEffect e (effect_queue s)\<rparr>"

definition hasEffectInQueue :: "MainLightingController \<Rightarrow> bool" where
  "hasEffectInQueue s = queue_has_effect (effect_queue s)"

definition startTimer :: "string \<Rightarrow> real \<Rightarrow> MainLightingController \<Rightarrow> MainLightingController" where
  "startTimer name delay s = s\<lparr>timers := timers s @ [(name, delay)]\<rparr>"

text \<open>
  Python's \<open>random.uniform(a, b)\<close> is \<open>a + (b - a) * random()\<close>, with \<open>random()\<close> in
  \<open>[0, 1)\<close>.
\<close>

definition uniform :: "real \<Rightarrow> real \<Rightarrow> real \<Rightarrow> real" where
  "uniform a b r = a + (b - a) * r"

text \<open>
  Modelled from the spec: \<open>PropertyContainer\<close> is not among the sources. \<open>get\<close> by name
  fails with \<open>NotFound\<close> when the property is absent.
\<close>

definition container_get :: "MainLightingController \<Rightarrow> string \<Rightarrow> error + pvalue" where
  "container_get s k =
     (case property_container s k of None \<Rightarrow> Inl NotFound | Some v \<Rightarrow> Inr v)"

definition getModeFlag :: "MainLightingController \<Rightarrow> string \<Rightarrow> error + pvalue" where
  "getModeFlag s flag_name =
     (if flag_name \<in> set ALL_MODE_FLAGS then container_get s flag_name
      else Inl AssertionError)"

definition getRuntimeFlag :: "MainLightingController \<Rightarrow> string \<Rightarrow> error + bool" where
  "getRuntimeFlag s flag_name =
     (if flag_name \<in> set ALL_RUNTIME_FLAGS
      then Inr (case runtime_flags s flag_name of None \<Rightarrow> False | Some b \<Rightarrow> b)
      else Inl AssertionError)"

definition getUserBrightness :: "MainLightingController \<Rightarrow> error + pvalue" where
  "getUserBrightness s = container_get s ''user_brightness''"

definition getMainColorHue :: "MainLightingController \<Rightarrow> real" where
  "getMainColorHue s = hue (main_color s)"

definition getMainColorSaturation :: "MainLightingController \<Rightarrow> real" where
  "getMainColorSaturation s = saturation (main_color s)"

definition getMainColorBrightness :: "MainLightingController \<Rightarrow> real" where
  "getMainColorBrightness s = val (main_color s)"

definition getColor :: "MainLightingController \<Rightarrow> error + hsv_color" where
  "getColor s =
     (case container_get s ''user_brightness'' of
        Inl e \<Rightarrow> Inl e
      | Inr ub \<Rightarrow>
          Inr (HsvColor (hue (main_color s)) (saturation (main_color s))
                 (val (main_color s) * to_float ub / 100)))"

definition getDarkColor :: "MainLightingController \<Rightarrow> error + hsv_color" where
  "getDarkColor s =
     (case getColor s of
        Inl e \<Rightarrow> Inl e
      | Inr color \<Rightarrow> Inr (color\<lparr>val := val color * DARK_COLOR_BRIGHTNESS_FACTOR\<rparr>))"

definition stateIsPrinting :: "MainLightingController \<Rightarrow> bool" where
  "stateIsPrinting s = (printer_state s = VStr ''printing'')"

definition stateIsError :: "MainLightingController \<Rightarrow> bool" where
  "stateIsError s = (printer_state s = VStr ''error'')"

definition stateIsMaintenance :: "MainLightingController \<Rightarrow> bool" where
  "stateIsMaintenance s = (printer_state s = VStr ''maintenance'')"

definition stateIsWaitingForCleanup :: "MainLightingController \<Rightarrow> bool" where
  "stateIsWaitingForCleanup s =
     (printer_state s = VStr ''printing'' \<and>
      (job_state s = VStr ''wait_cleanup'' \<or> job_state s = VStr ''none''))"

text \<open>
  The party branch of \<open>__update\<close>. The arguments of the color are evaluated left to
  right: the random number is drawn before \<open>user_brightness\<close> is read.
\<close>

definition update_party :: "MainLightingController \<Rightarrow> MainLightingController outcome" where
  "update_party s =
     (if \<not> hasEffectInQueue s then
        (let h = uniform 0 360 (random_source s (random_draws s));
             s1 = s\<lparr>random_draws := Suc (random_draws s)\<rparr>
         in case container_get s1 ''user_brightness'' of
              Inl e \<Rightarrow> Inl (e, s1)
            | Inr ub \<Rightarrow>
                Inr (startTimer ''PARTY!'' 2
                       (queueEffect (FadeEffect (HsvColor h 100 (to_float ub)) 2) s1)))
      else Inr s)"

definition update_glow :: "MainLightingController \<Rightarrow> MainLightingController outcome" where
  "update_glow s =
     (case getColor s of
        Inl e \<Rightarrow> Inl (e, s)
      | Inr c \<Rightarrow>
          (case getDarkColor s of
             Inl e \<Rightarrow> Inl (e, s)
           | Inr d \<Rightarrow> Inr (queueEffect (GlowEffect c d DEFAULT_GLOW_FREQUENCY) s)))"

definition update_state :: "MainLightingController \<Rightarrow> MainLightingController outcome" where
  "update_state s =
     (if stateIsWaitingForCleanup s then
        Inr (queueEffect (StaticEffect (PURPLE (colorTheme s))) s)
      else if stateIsPrinting s then
        Inr (queueEffect (StaticEffect (CYAN (colorTheme s))) s)
      else if stateIsMaintenance s then
        Inr (queueEffect (StaticEffect (YELLOW (colorTheme s))) s)
      else if stateIsError s then
        Inr (queueEffect (StaticEffect (RED (colorTheme s))) s)
      else
        Inr (queueEffect (StaticEffect (GREEN (colorTheme s))) s))"

text \<open>
  \<open>getRuntimeFlag(authenticating) or getRuntimeFlag(message)\<close>: the second flag is read
  only when the first is false.
\<close>

definition runtime_flag_set :: "MainLightingController \<Rightarrow> error + bool" where
  "runtime_flag_set s =
     (case getRuntimeFlag s RUNTIME_FLAG_AUTHENTICATING of
        Inl e \<Rightarrow> Inl e
      | Inr a \<Rightarrow> if a then Inr True else getRuntimeFlag s RUNTIME_FLAG_MESSAGE)"

definition update :: "MainLightingController \<Rightarrow> MainLightingController outcome" where
  "update s =
     (case getModeFlag s MODE_FLAG_PARTY of
        Inl e \<Rightarrow> Inl (e, s)
      | Inr party \<Rightarrow>
          if truthy party then update_party s
          else (case runtime_flag_set s of
                  Inl e \<Rightarrow> Inl (e, s)
                | Inr flagged \<Rightarrow> if flagged then update_glow s else update_state s))"

text \<open>
  Modelled from the spec: \<open>PropertyContainer.setPropertyValue\<close> and
  \<open>NonVolatileProperty\<close> are not among the sources. Setting a property fails with
  \<open>NotFound\<close> when it is absent; otherwise it stores the value, writes it through to the
  settings store and notifies the subscribers before returning. The constructor
  subscribes \<open>__update\<close> to every property it adds.
\<close>

definition setPropertyValue ::
  "MainLightingController \<Rightarrow> string \<Rightarrow> pvalue \<Rightarrow> MainLightingController outcome" where
  "setPropertyValue s k v =
     (case property_container s k of
        None \<Rightarrow> Inl (NotFound, s)
      | Some old \<Rightarrow>
          update (s\<lparr>property_container := (property_container s)(k \<mapsto> v),
                    preferences := registry_set (preferences s) k v\<rparr>))"

definition setMainColorHue :: "MainLightingController \<Rightarrow> real \<Rightarrow> MainLightingController outcome" where
  "setMainColorHue s h = update (s\<lparr>main_color := (main_color s)\<lparr>hue := h\<rparr>\<rparr>)"

definition setMainColorSaturation ::
  "MainLightingController \<Rightarrow> real \<Rightarrow> MainLightingController outcome" where
  "setMainColorSaturation s x = update (s\<lparr>main_color := (main_color s)\<lparr>saturation := x\<rparr>\<rparr>)"

definition setMainColorBrightness ::
  "MainLightingController \<Rightarrow> real \<Rightarrow> MainLightingController outcome" where
  "setMainColorBrightness s b = update (s\<lparr>main_color := (main_color s)\<lparr>val := b\<rparr>\<rparr>)"

definition blink :: "MainLightingController \<Rightarrow> real \<Rightarrow> real \<Rightarrow> MainLightingController outcome" where
  "blink s frequency count =
     (case getColor s of
        Inl e \<Rightarrow> Inl (e, s)
      | Inr c \<Rightarrow> Inr (queueEffect (BlinkEffect c frequency count) s))"

definition setModeFlag ::
  "MainLightingController \<Rightarrow> string \<Rightarrow> bool \<Rightarrow> MainLightingController outcome" where
  "setModeFlag s flag_name new_value =
     (if flag_name \<in> set ALL_MODE_FLAGS
      then then_do (setPropertyValue s flag_name (PBool new_value)) update
      else Inl (AssertionError, s))"

definition setRuntimeFlag ::
  "MainLightingController \<Rightarrow> string \<Rightarrow> bool \<Rightarrow> MainLightingController outcome" where
  "setRuntimeFlag s flag_name new_value =
     (if flag_name \<in> set ALL_RUNTIME_FLAGS
      then update (s\<lparr>runtime_flags := (runtime_flags s)(flag_name \<mapsto> new_value)\<rparr>)
      else Inl (AssertionError, s))"

definition setUserBrightness ::
  "MainLightingController \<Rightarrow> real \<Rightarrow> MainLightingController outcome" where
  "setUserBrightness s user_brightness =
     setPropertyValue s ''user_brightness'' (PFloat (max 0 (min user_brightness 100)))"

definition onPrinterPropertyChanged ::
  "MainLightingController \<Rightarrow> string \<Rightarrow> variant \<Rightarrow> MainLightingController outcome" where
  "onPrinterPropertyChanged s property_key v =
     then_do
       (if property_key = ''state'' then update (s\<lparr>printer_state := v\<rparr>) else Inr s)
       (\<lambda>s1. if property_key = ''job_state'' then update (s1\<lparr>job_state := v\<rparr>) else Inr s1)"

text \<open>A started timer fires: it leaves the pending timers and calls \<open>__update\<close>.\<close>

definition timerFired :: "MainLightingController \<Rightarrow> MainLightingController outcome" where
  "timerFired s = (case timers s of [] \<Rightarrow> Inr s | t # ts \<Rightarrow> update (s\<lparr>timers := ts\<rparr>))"

text \<open>
  \<open>resetToDefaultValues\<close>: the loop over the mode flags writes each default into the
  settings store; then \<open>user_brightness\<close> is written and the store saved.
\<close>

fun reset_mode_flags :: "string list \<Rightarrow> MainLightingController \<Rightarrow> MainLightingController outcome" where
  "reset_mode_flags [] s = Inr s"
| "reset_mode_flags (key # keys) s =
     (case DEFAULT_MODE_SETTINGS key of
        None \<Rightarrow> Inl (KeyError, s)
      | Some b \<Rightarrow>
          reset_mode_flags keys (s\<lparr>preferences := setAsBoolean (preferences s) key b\<rparr>))"

definition resetToDefaultValues :: "MainLightingController \<Rightarrow> MainLightingController outcome" where
  "resetToDefaultValues s =
     then_do (reset_mode_flags ALL_MODE_FLAGS s)
       (\<lambda>s1. Inr (s1\<lparr>preferences :=
                       forceSave (setAsFloat (preferences s1) ''user_brightness'' 100)\<rparr>))"

text \<open>
  The constructor. For each mode flag, a missing setting is initialised with its
  default; the property is created with the stored value and added to the container.
  The same is done for \<open>user_brightness\<close>. The controller starts with a copy of the
  theme's white, no runtime flags, the printer's current \<open>state\<close> and \<open>job_state\<close>,
  and a fade to its color in the queue.
\<close>

fun init_mode_flags ::
  "string list \<Rightarrow> registry_file \<times> (string \<rightharpoonup> pvalue) \<Rightarrow> error + registry_file \<times> (string \<rightharpoonup> pvalue)"
  where
  "init_mode_flags [] rc = Inr rc"
| "init_mode_flags (key # keys) (r, c) =
     (case (if \<not> has r key
            then (case DEFAULT_MODE_SETTINGS key of
                    None \<Rightarrow> Inl KeyError
                  | Some b \<Rightarrow> Inr (setAsBoolean r key b))
            else Inr r) of
        Inl e \<Rightarrow> Inl e
      | Inr r1 \<Rightarrow>
          (case getAsBoolean r1 key of
             Inl e \<Rightarrow> Inl e
           | Inr b \<Rightarrow> init_mode_flags keys (r1, c(key \<mapsto> PBool b))))"

definition MainLightingController_init ::
  "color_theme \<Rightarrow> (string \<rightharpoonup> pvalue) \<Rightarrow> registry_file \<Rightarrow> (string \<Rightarrow> variant) \<Rightarrow> (nat \<Rightarrow> real)
     \<Rightarrow> error + MainLightingController" where
  "MainLightingController_init theme container prefs printer rnd =
     (case init_mode_flags ALL_MODE_FLAGS (prefs, container) of
        Inl e \<Rightarrow> Inl e
      | Inr (r1, c1) \<Rightarrow>
          (let r2 = (if \<not> has r1 ''user_brightness''
                     then setAsFloat r1 ''user_brightness'' 100 else r1)
           in case getAsFloat r2 ''user_brightness'' of
                Inl e \<Rightarrow> Inl e
              | Inr ub \<Rightarrow>
                  (let s = \<lparr>colorTheme = theme,
                            property_container = c1(''user_brightness'' \<mapsto> PFloat ub),
                            preferences = r2,
                            main_color = WHITE theme,
                            runtime_flags = Map.empty,
                            printer_state = printer ''state'',
                            job_state = printer ''job_state'',
                            effect_queue = [],
                            timers = [],
                            random_source = rnd,
                            random_draws = 0\<rparr>
                   in case getColor s of
                        Inl e \<Rightarrow> Inl e
                      | Inr c \<Rightarrow> Inr (queueEffect (FadeEffect c STARTUP_FADE_TIME) s))))"

section \<open>ButtonRingController\<close>

text \<open>
  The ring controller keeps its own copy of the printer's \<open>state\<close>, \<open>job_state\<close> and
  \<open>interaction_required\<close>, and a copy of the theme's \<open>ULTIMAKER\<close> color that the
  setters change. The color of a queued effect is the color at the time of the call.
\<close>

record ButtonRingController =
  ring_colorTheme :: color_theme
  ring_printer_state :: variant
  ring_job_state :: variant
  interaction_required :: variant
  customTheme :: hsv_color
  ring_effect_queue :: "effect list"

definition ring_queueEffect :: "effect \<Rightarrow> ButtonRingController \<Rightarrow> ButtonRingController" where
  "ring_queueEffect e s = s\<lparr>ring_effect_queue := enqueueEffect e (ring_effect_queue s)\<rparr>"

definition ring_update :: "ButtonRingController \<Rightarrow> ButtonRingController" where
  "ring_update s =
     (if ring_printer_state s = VStr ''error'' then
        ring_queueEffect
          (GlowEffect (BLACK (ring_colorTheme s)) (RED (ring_colorTheme s)) (1 / 2)) s
      else if variant_truthy (interaction_required s) then
        ring_queueEffect
          (GlowEffect (BLACK (ring_colorTheme s)) (YELLOW (ring_colorTheme s)) (1 / 2)) s
      else if ring_printer_state s = VStr ''printing'' \<and> ring_job_state s = VStr ''wait_cleanup'' then
        ring_queueEffect
          (GlowEffect (BLACK (ring_colorTheme s)) (PURPLE (ring_colorTheme s)) (1 / 2)) s
      else if ring_printer_state s = VStr ''printing'' \<and> ring_job_state s = VStr ''paused'' then
        ring_queueEffect
          (GlowEffect (BLACK (ring_colorTheme s)) (CYAN (ring_colorTheme s)) (1 / 2)) s
      else
        ring_queueEffect (StaticEffect (customTheme s)) s)"

definition ButtonRingController_init ::
  "color_theme \<Rightarrow> (string \<Rightarrow> variant) \<Rightarrow> ButtonRingController" where
  "ButtonRingController_init theme printer =
     \<lparr>ring_colorTheme = theme,
      ring_printer_state = printer ''state'',
      ring_job_state = printer ''job_state'',
      interaction_required = printer ''interaction_required'',
      customTheme = ULTIMAKER theme,
      ring_effect_queue = enqueueEffect (FadeEffect (ULTIMAKER theme) 6) []\<rparr>"

definition ring_onPrinterPropertyChanged ::
  "ButtonRingController \<Rightarrow> string \<Rightarrow> variant \<Rightarrow> ButtonRingController" where
  "ring_onPrinterPropertyChanged s property_key v =
     (let s1 = (if property_key = ''state''
                then ring_update (s\<lparr>ring_printer_state := v\<rparr>) else s);
          s2 = (if property_key = ''job_state''
                then ring_update (s1\<lparr>ring_job_state := v\<rparr>) else s1)
      in if property_key = ''interaction_required''
         then ring_update (s2\<lparr>interaction_required := v\<rparr>) else s2)"

definition getCustomRingHue :: "ButtonRingController \<Rightarrow> real" where
  "getCustomRingHue s = hue (customTheme s)"

definition getCustomRingSaturation :: "ButtonRingController \<Rightarrow> real" where
  "getCustomRingSaturation s = saturation (customTheme s)"

definition getCustomRingBrightness :: "ButtonRingController \<Rightarrow> real" where
  "getCustomRingBrightness s = val (customTheme s)"

definition setCustomRingHue :: "ButtonRingController \<Rightarrow> real \<Rightarrow> ButtonRingController" where
  "setCustomRingHue s h = ring_update (s\<lparr>customTheme := (customTheme s)\<lparr>hue := h\<rparr>\<rparr>)"

definition setCustomRingSaturation :: "ButtonRingController \<Rightarrow> real \<Rightarrow> ButtonRingController" where
  "setCustomRingSaturation s x =
     ring_update (s\<lparr>customTheme := (customTheme s)\<lparr>saturation := x\<rparr>\<rparr>)"

definition setCustomRingBrightness :: "ButtonRingController \<Rightarrow> real \<Rightarrow> ButtonRingController" where
  "setCustomRingBrightness s b = ring_update (s\<lparr>customTheme := (customTheme s)\<lparr>val := b\<rparr>\<rparr>)"

section \<open>LedService\<close>

text \<open>
  The service holds the two controller references, both \<open>None\<close> until \<open>__start\<close> runs.
  What it reads from its surroundings is kept beside them: \<open>printer\<close> gives the current
  value of each property of the remote printer object, \<open>machine_bom\<close> is what
  \<open>getMachineBOM()\<close> returns (each entry as \<open>str\<close> renders it), \<open>theme\<close> the color
  module, \<open>settings_file\<close> the content of \<open>main_lighting.json\<close>, \<open>entropy\<close> the random
  numbers to come. The back light and head slot controllers, the hardware classes and the
  log are outside the model; so is the ring controller that \<open>__start\<close> builds on dummy
  hardware and does not keep.
\<close>

record LedService =
  running :: bool
  main_controller :: "MainLightingController option"
  button_ring_controller :: "ButtonRingController option"
  printer :: "string \<Rightarrow> variant"
  machine_bom :: "string list"
  theme :: color_theme
  settings_file :: "string \<rightharpoonup> pvalue"
  entropy :: "nat \<Rightarrow> real"

definition with_main ::
  "LedService \<Rightarrow> MainLightingController outcome \<Rightarrow> LedService outcome" where
  "with_main svc r =
     (case r of
        Inl (e, c) \<Rightarrow> Inl (e, svc\<lparr>main_controller := Some c\<rparr>)
      | Inr c \<Rightarrow> Inr (svc\<lparr>main_controller := Some c\<rparr>))"

definition with_ring :: "LedService \<Rightarrow> ButtonRingController \<Rightarrow> LedService outcome" where
  "with_ring svc c = Inr (svc\<lparr>button_ring_controller := Some c\<rparr>)"

definition resetSettings :: "LedService \<Rightarrow> string \<Rightarrow> LedService outcome" where
  "resetSettings svc reset_type =
     (case main_controller svc of
        None \<Rightarrow> Inr svc
      | Some c \<Rightarrow> with_main svc (resetToDefaultValues c))"

definition setMainLightingHue :: "LedService \<Rightarrow> real \<Rightarrow> LedService outcome" where
  "setMainLightingHue svc h =
     (case main_controller svc of
        None \<Rightarrow> Inr svc
      | Some c \<Rightarrow> with_main svc (setMainColorHue c h))"

definition getMainLightingHue :: "LedService \<Rightarrow> real" where
  "getMainLightingHue svc =
     (case main_controller svc of None \<Rightarrow> 0 | Some c \<Rightarrow> getMainColorHue c)"

definition setMainLightingSaturation :: "LedService \<Rightarrow> real \<Rightarrow> LedService outcome" where
  "setMainLightingSaturation svc x =
     (case main_controller svc of
        None \<Rightarrow> Inr svc
      | Some c \<Rightarrow> with_main svc (setMainColorSaturation c x))"

definition getMainLightingSaturation :: "LedService \<Rightarrow> real" where
  "getMainLightingSaturation svc =
     (case main_controller svc of None \<Rightarrow> 0 | Some c \<Rightarrow> getMainColorSaturation c)"

definition setMainLightingBrightness :: "LedService \<Rightarrow> real \<Rightarrow> LedService outcome" where
  "setMainLightingBrightness svc b =
     (case main_controller svc of
        None \<Rightarrow> Inr svc
      | Some c \<Rightarrow> with_main svc (setMainColorBrightness c b))"

definition getMainLightingBrightness :: "LedService \<Rightarrow> real" where
  "getMainLightingBrightness svc =
     (case main_controller svc of None \<Rightarrow> 0 | Some c \<Rightarrow> getMainColorBrightness c)"

definition setRingLightingHue :: "LedService \<Rightarrow> real \<Rightarrow> LedService outcome" where
  "setRingLightingHue svc h =
     (case button_ring_controller svc of
        None \<Rightarrow> Inr svc
      | Some c \<Rightarrow> with_ring svc (setCustomRingHue c h))"

definition getRingLightingHue :: "LedService \<Rightarrow> real" where
  "getRingLightingHue svc =
     (case button_ring_controller svc of None \<Rightarrow> 0 | Some c \<Rightarrow> getCustomRingHue c)"

definition setRingLightingSaturation :: "LedService \<Rightarrow> real \<Rightarrow> LedService outcome" where
  "setRingLightingSaturation svc x =
     (case button_ring_controller svc of
        None \<Rightarrow> Inr svc
      | Some c \<Rightarrow> with_ring svc (setCustomRingSaturation c x))"

definition getRingLightingSaturation :: "LedService \<Rightarrow> real" where
  "getRingLightingSaturation svc =
     (case button_ring_controller svc of None \<Rightarrow> 0 | Some c \<Rightarrow> getCustomRingSaturation c)"

definition setRingLightingBrightness :: "LedService \<Rightarrow> real \<Rightarrow> LedService outcome" where
  "setRingLightingBrightness svc b =
     (case button_ring_controller svc of
        None \<Rightarrow> Inr svc
      | Some c \<Rightarrow> with_ring svc (setCustomRingBrightness c b))"

definition getRingLightingBrightness :: "LedService \<Rightarrow> real" where
  "getRingLightingBrightness svc =
     (case button_ring_controller svc of None \<Rightarrow> 0 | Some c \<Rightarrow> getCustomRingBrightness c)"

definition setMainLightingUserBrightness :: "LedService \<Rightarrow> real \<Rightarrow> LedService outcome" where
  "setMainLightingUserBrightness svc b =
     (case main_controller svc of
        None \<Rightarrow> Inr svc
      | Some c \<Rightarrow> with_main svc (setUserBrightness c b))"

definition getMainLightingUserBrightness :: "LedService \<Rightarrow> error + pvalue" where
  "getMainLightingUserBrightness svc =
     (case main_controller svc of None \<Rightarrow> Inr (PFloat 0) | Some c \<Rightarrow> getUserBrightness c)"

definition setMainLightingModeFlag :: "LedService \<Rightarrow> string \<Rightarrow> bool \<Rightarrow> LedService outcome" where
  "setMainLightingModeFlag svc flag_name new_mode =
     (case main_controller svc of
        None \<Rightarrow> Inr svc
      | Some c \<Rightarrow> with_main svc (setModeFlag c flag_name new_mode))"

definition getMainLightingModeFlag :: "LedService \<Rightarrow> string \<Rightarrow> error + pvalue" where
  "getMainLightingModeFlag svc flag_name =
     (case main_controller svc of
        None \<Rightarrow> Inr (PBool False)
      | Some c \<Rightarrow> getModeFlag c flag_name)"

definition setMainLightingRuntimeFlag :: "LedService \<Rightarrow> string \<Rightarrow> bool \<Rightarrow> LedService outcome" where
  "setMainLightingRuntimeFlag svc flag_name new_mode =
     (case main_controller svc of
        None \<Rightarrow> Inr svc
      | Some c \<Rightarrow> with_main svc (setRuntimeFlag c flag_name new_mode))"

definition getMainLightingRuntimeFlag :: "LedService \<Rightarrow> string \<Rightarrow> error + bool" where
  "getMainLightingRuntimeFlag svc flag_name =
     (case main_controller svc of
        None \<Rightarrow> Inr False
      | Some c \<Rightarrow> getRuntimeFlag c flag_name)"

definition blinkMainLighting :: "LedService \<Rightarrow> real \<Rightarrow> real \<Rightarrow> LedService outcome" where
  "blinkMainLighting svc frequency count =
     (case main_controller svc of
        None \<Rightarrow> Inr svc
      | Some c \<Rightarrow> with_main svc (blink c frequency count))"

text \<open>
  \<open>__start\<close> runs once. It builds the main controller on an empty property container
  and the settings read from the file, then looks at the first entry of the machine's
  bill of materials: the ring controller is kept only for the ids \<open>9066\<close> and \<open>9511\<close>.
\<close>

definition start :: "LedService \<Rightarrow> LedService outcome" where
  "start svc =
     (if running svc then Inr svc
      else
        (let svc1 = svc\<lparr>running := True\<rparr>
         in case MainLightingController_init (theme svc) Map.empty
                   (RegistryFile (settings_file svc)) (printer svc) (entropy svc) of
              Inl e \<Rightarrow> Inl (e, svc1)
            | Inr c \<Rightarrow>
                (let svc2 = svc1\<lparr>main_controller := Some c\<rparr>
                 in case machine_bom svc2 of
                      [] \<Rightarrow> Inl (IndexError, svc2)
                    | b # bs \<Rightarrow>
                        if b \<in> set [''9066'', ''9511'']
                        then Inr (svc2\<lparr>button_ring_controller :=
                                          Some (ButtonRingController_init (theme svc2) (printer svc2))\<rparr>)
                        else Inr svc2)))"

definition onPrinterStateChanged :: "LedService \<Rightarrow> variant \<Rightarrow> LedService outcome" where
  "onPrinterStateChanged svc state = (if state \<noteq> VStr ''booting'' then start svc else Inr svc)"

definition service_onPrinterPropertyChanged ::
  "LedService \<Rightarrow> string \<Rightarrow> variant \<Rightarrow> LedService outcome" where
  "service_onPrinterPropertyChanged svc key v =
     (if key = ''state'' then onPrinterStateChanged svc v else Inr svc)"

definition LedService_init ::
  "(string \<Rightarrow> variant) \<Rightarrow> string list \<Rightarrow> color_theme \<Rightarrow> (string \<rightharpoonup> pvalue) \<Rightarrow> (nat \<Rightarrow> real)
     \<Rightarrow> LedService outcome" where
  "LedService_init p bom th file rnd =
     onPrinterStateChanged
       \<lparr>running = False, main_controller = None, button_ring_controller = None,
        printer = p, machine_bom = bom, theme = th, settings_file = file, entropy = rnd\<rparr>
       (p ''state'')"

text \<open>
  Everything that can reach the service during its life: a call of one of its remote
  methods, a change of a printer property, or a timer of the main controller firing. A
  property change is delivered to the service first and then to the controllers that
  were subscribed when it was sent.
\<close>

datatype led_event =
    ResetSettings string
  | SetMainLightingHue real
  | SetMainLightingSaturation real
  | SetMainLightingBrightness real
  | SetRingLightingHue real
  | SetRingLightingSaturation real
  | SetRingLightingBrightness real
  | SetMainLightingUserBrightness real
  | SetMainLightingModeFlag string bool
  | SetMainLightingRuntimeFlag string bool
  | BlinkMainLighting real real
  | PrinterPropertyChanged string variant
  | TimerFired

definition deliver_to_controllers ::
  "bool \<Rightarrow> bool \<Rightarrow> string \<Rightarrow> variant \<Rightarrow> LedService \<Rightarrow> LedService outcome" where
  "deliver_to_controllers to_main to_ring key v svc =
     then_do
       (case main_controller svc of
          Some c \<Rightarrow> if to_main then with_main svc (onPrinterPropertyChanged c key v) else Inr svc
        | None \<Rightarrow> Inr svc)
       (\<lambda>svc1. case button_ring_controller svc1 of
                 Some c \<Rightarrow>
                   if to_ring then with_ring svc1 (ring_onPrinterPropertyChanged c key v)
                   else Inr svc1
               | None \<Rightarrow> Inr svc1)"

fun dispatch :: "LedService \<Rightarrow> led_event \<Rightarrow> LedService outcome" where
  "dispatch svc (ResetSettings t) = resetSettings svc t"
| "dispatch svc (SetMainLightingHue x) = setMainLightingHue svc x"
| "dispatch svc (SetMainLightingSaturation x) = setMainLightingSaturation svc x"
| "dispatch svc (SetMainLightingBrightness x) = setMainLightingBrightness svc x"
| "dispatch svc (SetRingLightingHue x) = setRingLightingHue svc x"
| "dispatch svc (SetRingLightingSaturation x) = setRingLightingSaturation svc x"
| "dispatch svc (SetRingLightingBrightness x) = setRingLightingBrightness svc x"
| "dispatch svc (SetMainLightingUserBrightness x) = setMainLightingUserBrightness svc x"
| "dispatch svc (SetMainLightingModeFlag n b) = setMainLightingModeFlag svc n b"
| "dispatch svc (SetMainLightingRuntimeFlag n b) = setMainLightingRuntimeFlag svc n b"
| "dispatch svc (BlinkMainLighting f n) = blinkMainLighting svc f n"
| "dispatch svc (PrinterPropertyChanged key v) =
     then_do
       (service_onPrinterPropertyChanged (svc\<lparr>printer := (printer svc)(key := v)\<rparr>) key v)
       (deliver_to_controllers (main_controller svc \<noteq> None)
          (button_ring_controller svc \<noteq> None) key v)"
| "dispatch svc TimerFired =
     (case main_controller svc of
        None \<Rightarrow> Inr svc
      | Some c \<Rightarrow> with_main svc (timerFired c))"

text \<open>The service after a sequence of events; an event that raises leaves the state it reached.\<close>

definition run :: "LedService \<Rightarrow> led_event list \<Rightarrow> LedService" where
  "run svc evs = foldl (\<lambda>s ev. state_after (dispatch s ev)) svc evs"

section \<open>Well-formed controllers, the priority orders as specified, and sample data\<close>

text \<open>
  A constructed controller has its three mode flags and \<open>user_brightness\<close> in the
  property container, with the types the constructor gives them.
\<close>

fun is_bool :: "pvalue option \<Rightarrow> bool" where
  "is_bool (Some (PBool b)) = True"
| "is_bool x = False"

fun is_float :: "pvalue option \<Rightarrow> bool" where
  "is_float (Some (PFloat x)) = True"
| "is_float x = False"

definition constructed :: "MainLightingController \<Rightarrow> bool" where
  "constructed s =
     (is_bool (property_container s MODE_FLAG_GLOW_WHEN_FINISHED) \<and>
      is_bool (property_container s MODE_FLAG_ON_WHEN_PRINTING) \<and>
      is_bool (property_container s MODE_FLAG_PARTY) \<and>
      is_float (property_container s ''user_brightness''))"

definition same_settings :: "MainLightingController \<Rightarrow> MainLightingController \<Rightarrow> bool" where
  "same_settings s s' =
     (colorTheme s' = colorTheme s \<and> property_container s' = property_container s \<and>
      preferences s' = preferences s \<and> main_color s' = main_color s \<and>
      runtime_flags s' = runtime_flags s \<and> printer_state s' = printer_state s \<and>
      job_state s' = job_state s \<and> random_source s' = random_source s)"




text \<open>
  The service holds no ring controller and the first entry of its machine's bill of
  materials (if any) is neither of the two ids that \<open>__start\<close> accepts.
\<close>

definition ring_absent :: "LedService \<Rightarrow> bool" where
  "ring_absent svc =
     (button_ring_controller svc = None \<and> take 1 (machine_bom svc) \<noteq> [''9066'']
      \<and> take 1 (machine_bom svc) \<noteq> [''9511''])"

text \<open>
  Sample data: a theme, a settings file, constructed controllers and a service that has
  not started.
\<close>

definition example_theme :: color_theme where
  "example_theme =
     \<lparr>WHITE = HsvColor 0 0 100, BLACK = HsvColor 0 0 0, PURPLE = HsvColor 300 100 100,
      CYAN = HsvColor 180 100 100, YELLOW = HsvColor 60 100 100, RED = HsvColor 0 100 100,
      GREEN = HsvColor 120 100 100, ULTIMAKER = HsvColor 200 80 100\<rparr>"

definition example_settings :: "string \<rightharpoonup> pvalue" where
  "example_settings =
     [''glow_when_print_is_finished'' \<mapsto> PBool True, ''on_when_printing'' \<mapsto> PBool False,
      ''party'' \<mapsto> PBool False, ''user_brightness'' \<mapsto> PFloat 80]"

definition example_controller :: MainLightingController where
  "example_controller =
     \<lparr>colorTheme = example_theme,
      property_container = example_settings,
      preferences = RegistryFile example_settings,
      main_color = HsvColor 40 50 60,
      runtime_flags = Map.empty,
      printer_state = VStr ''idle'',
      job_state = VStr ''none'',
      effect_queue = [FadeEffect (HsvColor 0 0 80) 6],
      timers = [],
      random_source = (\<lambda>n. 1 / 4),
      random_draws = 0\<rparr>"


definition example_printer :: "string \<Rightarrow> variant" where
  "example_printer =
     (\<lambda>k. if k = ''state'' then VStr ''idle''
          else if k = ''job_state'' then VStr ''none''
          else if k = ''interaction_required'' then VBool False
          else VNone)"

definition example_service :: LedService where
  "example_service =
     \<lparr>running = False, main_controller = None, button_ring_controller = None,
      printer = (\<lambda>k. VStr ''booting''), machine_bom = [''9051'', ''2''], theme = example_theme,
      settings_file = Map.empty, entropy = (\<lambda>n. 1 / 4)\<rparr>"


section \<open>Properties\<close>

subsection \<open>Re-evaluation changes only the queue, the timers and the random draws\<close>

lemma is_bool_iff: "is_bool x = (\<exists>b. x = Some (PBool b))"
  by (cases x rule: is_bool.cases) auto

lemma is_float_iff: "is_float x = (\<exists>u. x = Some (PFloat u))"
  by (cases x rule: is_float.cases) auto

lemma party_in_flags: "MODE_FLAG_PARTY \<in> set ALL_MODE_FLAGS"
  by (simp add: ALL_MODE_FLAGS_def)

lemma runtime_flag_set_eq:
  "runtime_flag_set s =
     Inr (runtime_flags s RUNTIME_FLAG_AUTHENTICATING = Some True \<or>
          runtime_flags s RUNTIME_FLAG_MESSAGE = Some True)"
  by (auto simp: runtime_flag_set_def getRuntimeFlag_def ALL_RUNTIME_FLAGS_def
           split: option.splits)

lemma update_unfold:
  assumes "property_container s MODE_FLAG_PARTY = Some p"
  shows "update s =
     (if truthy p then update_party s
      else if runtime_flags s RUNTIME_FLAG_AUTHENTICATING = Some True \<or>
              runtime_flags s RUNTIME_FLAG_MESSAGE = Some True
           then update_glow s else update_state s)"
  using assms
  by (simp add: update_def getModeFlag_def party_in_flags container_get_def runtime_flag_set_eq)

lemma update_party_same:
  "property_container s ''user_brightness'' = Some ub \<Longrightarrow>
   \<exists>s'. update_party s = Inr s' \<and> same_settings s s'"
  by (simp add: update_party_def Let_def container_get_def startTimer_def queueEffect_def
        same_settings_def)

lemma update_glow_same:
  "property_container s ''user_brightness'' = Some ub \<Longrightarrow>
   \<exists>s'. update_glow s = Inr s' \<and> same_settings s s'"
  by (simp add: update_glow_def getColor_def getDarkColor_def container_get_def queueEffect_def
        same_settings_def)

lemma update_state_same: "\<exists>s'. update_state s = Inr s' \<and> same_settings s s'"
  by (simp add: update_state_def queueEffect_def same_settings_def)

lemma update_same:
  assumes "property_container s MODE_FLAG_PARTY = Some p"
      and "property_container s ''user_brightness'' = Some ub"
  shows "\<exists>s'. update s = Inr s' \<and> same_settings s s'"
  using update_party_same[OF assms(2)] update_glow_same[OF assms(2)] update_state_same[of s]
  by (simp add: update_unfold[OF assms(1)])

lemma constructed_update:
  assumes "constructed s"
  shows "\<exists>s'. update s = Inr s' \<and> same_settings s s' \<and> constructed s'"
proof -
  from assms obtain p ub where
    "property_container s MODE_FLAG_PARTY = Some p" "property_container s ''user_brightness'' = Some ub"
    by (auto simp: constructed_def is_bool_iff is_float_iff)
  from update_same[OF this] obtain s' where s': "update s = Inr s'" "same_settings s s'" by blast
  with assms have "constructed s'" by (simp add: constructed_def same_settings_def)
  with s' show ?thesis by blast
qed





subsection \<open>The constructor establishes the well-formedness used above\<close>

lemma init_mode_flags_result:
  "\<exists>r c'. init_mode_flags ALL_MODE_FLAGS (prefs, c) = Inr (r, c')
     \<and> is_bool (c' MODE_FLAG_GLOW_WHEN_FINISHED) \<and> is_bool (c' MODE_FLAG_ON_WHEN_PRINTING)
     \<and> is_bool (c' MODE_FLAG_PARTY)"
  by (simp add: ALL_MODE_FLAGS_def DEFAULT_MODE_SETTINGS_def MODE_FLAG_GLOW_WHEN_FINISHED_def
        MODE_FLAG_ON_WHEN_PRINTING_def MODE_FLAG_PARTY_def has_def getAsBoolean_def
        setAsBoolean_def registry_set_def split: option.splits)

lemma MainLightingController_init_constructed:
  "\<exists>s. MainLightingController_init th c prefs p rnd = Inr s \<and> constructed s
       \<and> effect_queue s \<noteq> [] \<and> \<not> hasEffectInQueue s"
proof -
  from init_mode_flags_result[of prefs c] obtain r c' where
    i: "init_mode_flags ALL_MODE_FLAGS (prefs, c) = Inr (r, c')"
       "is_bool (c' MODE_FLAG_GLOW_WHEN_FINISHED)" "is_bool (c' MODE_FLAG_ON_WHEN_PRINTING)"
       "is_bool (c' MODE_FLAG_PARTY)"
    by blast
  show ?thesis
    using i(2-4)
    by (simp add: MainLightingController_init_def i(1) Let_def has_def getAsFloat_def
          setAsFloat_def registry_set_def getColor_def container_get_def queueEffect_def
          enqueueEffect_def constructed_def hasEffectInQueue_def queue_has_effect_def
          MODE_FLAG_GLOW_WHEN_FINISHED_def MODE_FLAG_ON_WHEN_PRINTING_def MODE_FLAG_PARTY_def
          split: option.splits)
qed

subsection \<open>C1: the priority order of the main lighting\<close>

lemma queueEffect_steady:
  "never_completes e \<Longrightarrow>
   queueEffect e s =
     s\<lparr>effect_queue := filter (\<lambda>x. \<not> never_completes x) (effect_queue s) @ [e]\<rparr>"
  by (simp add: queueEffect_def enqueueEffect_def)

lemma queueEffect_transient:
  "\<not> never_completes e \<Longrightarrow> queueEffect e s = s\<lparr>effect_queue := effect_queue s @ [e]\<rparr>"
  by (simp add: queueEffect_def enqueueEffect_def)







lemmas example_defs = example_controller_def example_settings_def example_theme_def
  RegistryFile_def HsvColor_def MODE_FLAG_PARTY_def RUNTIME_FLAG_AUTHENTICATING_def
  RUNTIME_FLAG_MESSAGE_def


subsection \<open>C4: the party branch\<close>

lemma uniform_range: "0 \<le> r \<Longrightarrow> r < 1 \<Longrightarrow> 0 \<le> uniform 0 360 r \<and> uniform 0 360 r \<le> 360"
  by (simp add: uniform_def)

lemma update_party_idle:
  assumes "property_container s ''user_brightness'' = Some (PFloat u)"
      and "\<not> hasEffectInQueue s"
  shows "update_party s =
           Inr (startTimer ''PARTY!'' 2
                  (queueEffect
                     (FadeEffect
                        (HsvColor (uniform 0 360 (random_source s (random_draws s))) 100 u) 2)
                     (s\<lparr>random_draws := Suc (random_draws s)\<rparr>)))"
  using assms by (simp add: update_party_def Let_def container_get_def)

lemma update_party_busy: "hasEffectInQueue s \<Longrightarrow> update_party s = Inr s"
  by (simp add: update_party_def)

text \<open>
  Claim C4. With the party flag set and no further effect pending, re-evaluation queues
  a Fade of 2 seconds to a color whose hue is drawn from \<open>[0, 360]\<close>, whose saturation
  is 100 and whose value is the stored \<open>user_brightness\<close>, and starts a timer of 2
  seconds whose firing re-evaluates. With an effect already pending it queues nothing
  and starts no timer: the controller is left as it was.
\<close>

theorem party_mode_fade:
  assumes "property_container s MODE_FLAG_PARTY = Some p" "truthy p"
      and "property_container s ''user_brightness'' = Some (PFloat u)"
      and "0 \<le> random_source s (random_draws s)" "random_source s (random_draws s) < 1"
      and "\<not> hasEffectInQueue s"
      and "property_container b MODE_FLAG_PARTY = Some pb" "truthy pb"
      and "hasEffectInQueue b"
  shows "(\<exists>h s'. 0 \<le> h \<and> h \<le> 360
            \<and> update s = Inr s'
            \<and> effect_queue s' = enqueueEffect (FadeEffect (HsvColor h 100 u) 2) (effect_queue s)
            \<and> timers s' = timers s @ [(''PARTY!'', 2)]
            \<and> timerFired s' = update (s'\<lparr>timers := tl (timers s')\<rparr>)
            \<and> same_settings s s')
         \<and> update b = Inr b"
proof -
  let ?h = "uniform 0 360 (random_source s (random_draws s))"
  let ?s' = "startTimer ''PARTY!'' 2
               (queueEffect (FadeEffect (HsvColor ?h 100 u) 2)
                  (s\<lparr>random_draws := Suc (random_draws s)\<rparr>))"
  have run: "update s = Inr ?s'"
    using assms(2) update_party_idle[OF assms(3) assms(6)]
    by (simp add: update_unfold[OF assms(1)])
  have range: "0 \<le> ?h \<and> ?h \<le> 360"
    using uniform_range[OF assms(4) assms(5)] .
  have queue: "effect_queue ?s' = enqueueEffect (FadeEffect (HsvColor ?h 100 u) 2) (effect_queue s)"
    by (simp add: startTimer_def queueEffect_def)
  have tm: "timers ?s' = timers s @ [(''PARTY!'', 2)]"
    by (simp add: startTimer_def queueEffect_def)
  have fire: "timerFired ?s' = update (?s'\<lparr>timers := tl (timers ?s')\<rparr>)"
    by (cases "timers s") (simp_all add: timerFired_def startTimer_def queueEffect_def)
  have same: "same_settings s ?s'"
    by (simp add: same_settings_def startTimer_def queueEffect_def)
  have busy: "update b = Inr b"
    using assms(8) update_party_busy[OF assms(9)] by (simp add: update_unfold[OF assms(7)])
  from run range queue tm fire same busy show ?thesis by blast
qed

theorem party_mode_fade_witness:
  "property_container (example_controller\<lparr>property_container := example_settings(''party'' \<mapsto> PBool True)\<rparr>)
       MODE_FLAG_PARTY = Some (PBool True)
   \<and> \<not> hasEffectInQueue example_controller
   \<and> hasEffectInQueue
        (example_controller\<lparr>property_container := example_settings(''party'' \<mapsto> PBool True),
                            effect_queue := [FadeEffect (HsvColor 0 0 80) 6, FadeEffect (HsvColor 90 100 80) 2]\<rparr>)
   \<and> (\<exists>h s'. 0 \<le> h \<and> h \<le> 360
         \<and> update (example_controller\<lparr>property_container := example_settings(''party'' \<mapsto> PBool True)\<rparr>) = Inr s'
         \<and> effect_queue s' = [FadeEffect (HsvColor 0 0 80) 6, FadeEffect (HsvColor h 100 80) 2]
         \<and> timers s' = [(''PARTY!'', 2)])
   \<and> update (example_controller\<lparr>property_container := example_settings(''party'' \<mapsto> PBool True),
                                 effect_queue := [FadeEffect (HsvColor 0 0 80) 6, FadeEffect (HsvColor 90 100 80) 2]\<rparr>)
       = Inr (example_controller\<lparr>property_container := example_settings(''party'' \<mapsto> PBool True),
                                 effect_queue := [FadeEffect (HsvColor 0 0 80) 6, FadeEffect (HsvColor 90 100 80) 2]\<rparr>)"
proof -
  let ?s = "example_controller\<lparr>property_container := example_settings(''party'' \<mapsto> PBool True)\<rparr>"
  let ?b = "?s\<lparr>effect_queue := [FadeEffect (HsvColor 0 0 80) 6, FadeEffect (HsvColor 90 100 80) 2]\<rparr>"
  have hs: "property_container ?s MODE_FLAG_PARTY = Some (PBool True)" "truthy (PBool True)"
      "property_container ?s ''user_brightness'' = Some (PFloat 80)"
      "0 \<le> random_source ?s (random_draws ?s)" "random_source ?s (random_draws ?s) < 1"
      "\<not> hasEffectInQueue ?s"
    by (simp_all add: example_defs hasEffectInQueue_def queue_has_effect_def)
  have hb: "property_container ?b MODE_FLAG_PARTY = Some (PBool True)" "hasEffectInQueue ?b"
    by (simp_all add: example_defs hasEffectInQueue_def queue_has_effect_def)
  have idle: "\<not> hasEffectInQueue example_controller"
    by (simp add: example_defs hasEffectInQueue_def queue_has_effect_def)
  from party_mode_fade[OF hs hb(1) hs(2) hb(2)]
  obtain h s' where r: "0 \<le> h" "h \<le> 360" "update ?s = Inr s'"
      "effect_queue s' = enqueueEffect (FadeEffect (HsvColor h 100 80) 2) (effect_queue ?s)"
      "timers s' = timers ?s @ [(''PARTY!'', 2)]" and rb: "update ?b = Inr ?b"
    by blast
  have q: "effect_queue s' = [FadeEffect (HsvColor 0 0 80) 6, FadeEffect (HsvColor h 100 80) 2]"
    using r(4) by (simp add: enqueueEffect_def example_defs)
  have t: "timers s' = [(''PARTY!'', 2)]"
    using r(5) by (simp add: example_defs)
  from r(1-3) q t have ex: "\<exists>h s'. 0 \<le> h \<and> h \<le> 360 \<and> update ?s = Inr s'
         \<and> effect_queue s' = [FadeEffect (HsvColor 0 0 80) 6, FadeEffect (HsvColor h 100 80) 2]
         \<and> timers s' = [(''PARTY!'', 2)]" by blast
  have eqb: "?b = example_controller\<lparr>property_container := example_settings(''party'' \<mapsto> PBool True),
       effect_queue := [FadeEffect (HsvColor 0 0 80) 6, FadeEffect (HsvColor 90 100 80) 2]\<rparr>"
    by simp
  show ?thesis using hs(1) idle hb(2) ex rb by simp
qed

subsection \<open>C8: the colors resolved for emission\<close>

lemma getColor_value:
  "property_container s ''user_brightness'' = Some (PFloat u) \<Longrightarrow>
   getColor s =
     Inr (HsvColor (hue (main_color s)) (saturation (main_color s)) (val (main_color s) * u / 100))"
  by (simp add: getColor_def container_get_def)

lemma getDarkColor_value:
  "property_container s ''user_brightness'' = Some (PFloat u) \<Longrightarrow>
   getDarkColor s =
     Inr (HsvColor (hue (main_color s)) (saturation (main_color s))
            (val (main_color s) * u / 100 * (3 / 10)))"
  by (simp add: getDarkColor_def getColor_value HsvColor_def DARK_COLOR_BRIGHTNESS_FACTOR_def)

text \<open>
  Claim C8. The color handed to Blink and the bright end of the authenticating/message
  Glow have the hue and saturation of the stored main color and the value
  \<open>value * user_brightness / 100\<close>; the dark end is the same color with its value
  multiplied by 0.3. \<open>blink\<close> appends a Blink of that color to the queue; the
  authenticating/message branch puts a Glow between the two colors at 0.1 Hz last in
  the queue, in place of the steady-state effects that were there.
\<close>

theorem emitted_color_scaling:
  assumes "property_container s ''user_brightness'' = Some (PFloat u)"
      and "property_container g MODE_FLAG_PARTY = Some p" "\<not> truthy p"
      and "property_container g ''user_brightness'' = Some (PFloat ug)"
      and "runtime_flags g RUNTIME_FLAG_AUTHENTICATING = Some True
           \<or> runtime_flags g RUNTIME_FLAG_MESSAGE = Some True"
  shows "getColor s =
           Inr (HsvColor (hue (main_color s)) (saturation (main_color s))
                  (val (main_color s) * u / 100))
         \<and> getDarkColor s =
           Inr (HsvColor (hue (main_color s)) (saturation (main_color s))
                  (val (main_color s) * u / 100 * (3 / 10)))
         \<and> blink s f n =
           Inr (s\<lparr>effect_queue :=
                    effect_queue s
                    @ [BlinkEffect
                         (HsvColor (hue (main_color s)) (saturation (main_color s))
                            (val (main_color s) * u / 100)) f n]\<rparr>)
         \<and> update g =
           Inr (g\<lparr>effect_queue :=
                    filter (\<lambda>x. \<not> never_completes x) (effect_queue g)
                    @ [GlowEffect
                         (HsvColor (hue (main_color g)) (saturation (main_color g))
                            (val (main_color g) * ug / 100))
                         (HsvColor (hue (main_color g)) (saturation (main_color g))
                            (val (main_color g) * ug / 100 * (3 / 10)))
                         (1 / 10)]\<rparr>)"
proof -
  have b: "blink s f n =
           Inr (s\<lparr>effect_queue :=
                    effect_queue s
                    @ [BlinkEffect
                         (HsvColor (hue (main_color s)) (saturation (main_color s))
                            (val (main_color s) * u / 100)) f n]\<rparr>)"
    by (simp add: blink_def getColor_value[OF assms(1)] queueEffect_transient)
  have "update g = update_glow g"
    using assms(3) assms(5) by (simp add: update_unfold[OF assms(2)])
  then have gl: "update g =
           Inr (g\<lparr>effect_queue :=
                    filter (\<lambda>x. \<not> never_completes x) (effect_queue g)
                    @ [GlowEffect
                         (HsvColor (hue (main_color g)) (saturation (main_color g))
                            (val (main_color g) * ug / 100))
                         (HsvColor (hue (main_color g)) (saturation (main_color g))
                            (val (main_color g) * ug / 100 * (3 / 10)))
                         (1 / 10)]\<rparr>)"
    by (simp add: update_glow_def getColor_value[OF assms(4)] getDarkColor_value[OF assms(4)]
          DEFAULT_GLOW_FREQUENCY_def queueEffect_steady)
  show ?thesis
    using getColor_value[OF assms(1)] getDarkColor_value[OF assms(1)] b gl by simp
qed

theorem emitted_color_scaling_witness:
  "property_container (example_controller\<lparr>main_color := HsvColor 40 50 50\<rparr>) ''user_brightness''
     = Some (PFloat 80)
   \<and> runtime_flags
        (example_controller\<lparr>main_color := HsvColor 40 50 50, runtime_flags := [''message'' \<mapsto> True],
                            effect_queue := [FadeEffect (HsvColor 0 0 80) 6,
                                             StaticEffect (HsvColor 120 100 100)]\<rparr>)
        RUNTIME_FLAG_MESSAGE = Some True
   \<and> getColor (example_controller\<lparr>main_color := HsvColor 40 50 50\<rparr>) = Inr (HsvColor 40 50 40)
   \<and> getDarkColor (example_controller\<lparr>main_color := HsvColor 40 50 50\<rparr>) = Inr (HsvColor 40 50 12)
   \<and> blink (example_controller\<lparr>main_color := HsvColor 40 50 50\<rparr>) 1 3 =
       Inr (example_controller
              \<lparr>main_color := HsvColor 40 50 50,
               effect_queue := [FadeEffect (HsvColor 0 0 80) 6,
                                BlinkEffect (HsvColor 40 50 40) 1 3]\<rparr>)
   \<and> update
        (example_controller\<lparr>main_color := HsvColor 40 50 50, runtime_flags := [''message'' \<mapsto> True],
                            effect_queue := [FadeEffect (HsvColor 0 0 80) 6,
                                             StaticEffect (HsvColor 120 100 100)]\<rparr>) =
       Inr (example_controller
              \<lparr>main_color := HsvColor 40 50 50, runtime_flags := [''message'' \<mapsto> True],
               effect_queue := [FadeEffect (HsvColor 0 0 80) 6,
                                GlowEffect (HsvColor 40 50 40) (HsvColor 40 50 12) (1 / 10)]\<rparr>)"
  using emitted_color_scaling
    [where s = "example_controller\<lparr>main_color := HsvColor 40 50 50\<rparr>" and u = 80
       and g = "example_controller\<lparr>main_color := HsvColor 40 50 50,
                                    runtime_flags := [''message'' \<mapsto> True],
                                    effect_queue := [FadeEffect (HsvColor 0 0 80) 6,
                                                     StaticEffect (HsvColor 120 100 100)]\<rparr>"
       and p = "PBool False" and ug = 80 and f = 1 and n = 3]
  by (simp add: example_defs)

subsection \<open>C6 and C7: the brightness and color setters\<close>

lemma setUserBrightness_stores:
  assumes "property_container s MODE_FLAG_PARTY = Some p"
      and "property_container s ''user_brightness'' = Some old"
  shows "\<exists>s'. setUserBrightness s b = Inr s'
            \<and> getUserBrightness s' = Inr (PFloat (min (max b 0) 100))
            \<and> mem (preferences s') ''user_brightness'' = Some (PFloat (min (max b 0) 100))"
proof -
  let ?v = "PFloat (max 0 (min b 100))"
  let ?t = "s\<lparr>property_container := (property_container s)(''user_brightness'' \<mapsto> ?v),
              preferences := registry_set (preferences s) ''user_brightness'' ?v\<rparr>"
  have set: "setUserBrightness s b = update ?t"
    using assms(2) by (simp add: setUserBrightness_def setPropertyValue_def)
  have "property_container ?t MODE_FLAG_PARTY = Some p"
    using assms(1) by (simp add: MODE_FLAG_PARTY_def)
  moreover have "property_container ?t ''user_brightness'' = Some ?v" by simp
  ultimately obtain s' where s': "update ?t = Inr s'" "same_settings ?t s'"
    using update_same by blast
  have clamp: "max 0 (min b 100) = min (max b 0) (100::real)" by (simp add: min_def max_def)
  from s'(2) have "getUserBrightness s' = Inr ?v"
      and "mem (preferences s') ''user_brightness'' = Some ?v"
    by (simp_all add: same_settings_def getUserBrightness_def container_get_def registry_set_def)
  with set s'(1) clamp show ?thesis by simp
qed

text \<open>
  Claim C6. For every brightness \<open>b\<close>, \<open>setUserBrightness(b)\<close> stores
  \<open>min(max(b, 0), 100)\<close>, so that \<open>getUserBrightness\<close> then returns a value between 0
  and 100; 150 gives 100 and -10 gives 0.
\<close>

theorem setUserBrightness_clamps:
  assumes "property_container s MODE_FLAG_PARTY = Some p"
      and "property_container s ''user_brightness'' = Some old"
  shows "(\<exists>s'. setUserBrightness s b = Inr s'
            \<and> getUserBrightness s' = Inr (PFloat (min (max b 0) 100))
            \<and> mem (preferences s') ''user_brightness'' = Some (PFloat (min (max b 0) 100)))
         \<and> 0 \<le> min (max b 0) 100 \<and> min (max b 0) 100 \<le> 100
         \<and> (\<exists>s'. setUserBrightness s 150 = Inr s' \<and> getUserBrightness s' = Inr (PFloat 100))
         \<and> (\<exists>s'. setUserBrightness s (- 10) = Inr s' \<and> getUserBrightness s' = Inr (PFloat 0))"
  using setUserBrightness_stores[OF assms, of b] setUserBrightness_stores[OF assms, of 150]
    setUserBrightness_stores[OF assms, of "- 10"]
  by auto

theorem setUserBrightness_clamps_witness:
  "property_container example_controller MODE_FLAG_PARTY = Some (PBool False)
   \<and> property_container example_controller ''user_brightness'' = Some (PFloat 80)
   \<and> (\<exists>s'. setUserBrightness example_controller 150 = Inr s'
          \<and> getUserBrightness s' = Inr (PFloat 100))
   \<and> (\<exists>s'. setUserBrightness example_controller (- 10) = Inr s'
          \<and> getUserBrightness s' = Inr (PFloat 0))
   \<and> (\<exists>s'. setUserBrightness example_controller 55 = Inr s'
          \<and> getUserBrightness s' = Inr (PFloat 55))"
proof -
  have h: "property_container example_controller MODE_FLAG_PARTY = Some (PBool False)"
      "property_container example_controller ''user_brightness'' = Some (PFloat 80)"
    by (simp_all add: example_defs)
  from setUserBrightness_clamps[OF h, of 55] h show ?thesis by auto
qed

lemma color_setter_result:
  assumes "property_container s MODE_FLAG_PARTY = Some p"
      and "property_container s ''user_brightness'' = Some ub"
  shows "\<exists>s'. update (s\<lparr>main_color := c\<rparr>) = Inr s' \<and> main_color s' = c"
proof -
  have "property_container (s\<lparr>main_color := c\<rparr>) MODE_FLAG_PARTY = Some p"
       "property_container (s\<lparr>main_color := c\<rparr>) ''user_brightness'' = Some ub"
    using assms by simp_all
  from update_same[OF this] show ?thesis by (auto simp: same_settings_def)
qed

text \<open>
  Claim C7. The setters of the main color do not clamp: for every \<open>v\<close>, also outside
  the nominal ranges, setting the hue, the saturation or the brightness and reading it
  back returns \<open>v\<close>.
\<close>

theorem main_color_setters_roundtrip:
  assumes "property_container s MODE_FLAG_PARTY = Some p"
      and "property_container s ''user_brightness'' = Some ub"
  shows "(\<exists>s'. setMainColorHue s v = Inr s' \<and> getMainColorHue s' = v)
         \<and> (\<exists>s'. setMainColorSaturation s v = Inr s' \<and> getMainColorSaturation s' = v)
         \<and> (\<exists>s'. setMainColorBrightness s v = Inr s' \<and> getMainColorBrightness s' = v)"
proof -
  from color_setter_result[OF assms, of "(main_color s)\<lparr>hue := v\<rparr>"]
  have 1: "\<exists>s'. setMainColorHue s v = Inr s' \<and> getMainColorHue s' = v"
    by (auto simp: setMainColorHue_def getMainColorHue_def)
  from color_setter_result[OF assms, of "(main_color s)\<lparr>saturation := v\<rparr>"]
  have 2: "\<exists>s'. setMainColorSaturation s v = Inr s' \<and> getMainColorSaturation s' = v"
    by (auto simp: setMainColorSaturation_def getMainColorSaturation_def)
  from color_setter_result[OF assms, of "(main_color s)\<lparr>val := v\<rparr>"]
  have 3: "\<exists>s'. setMainColorBrightness s v = Inr s' \<and> getMainColorBrightness s' = v"
    by (auto simp: setMainColorBrightness_def getMainColorBrightness_def)
  from 1 2 3 show ?thesis by blast
qed

theorem main_color_setters_roundtrip_witness:
  "property_container example_controller MODE_FLAG_PARTY = Some (PBool False)
   \<and> property_container example_controller ''user_brightness'' = Some (PFloat 80)
   \<and> (\<exists>s'. setMainColorHue example_controller 725 = Inr s' \<and> getMainColorHue s' = 725)
   \<and> (\<exists>s'. setMainColorSaturation example_controller 725 = Inr s'
          \<and> getMainColorSaturation s' = 725)
   \<and> (\<exists>s'. setMainColorBrightness example_controller 725 = Inr s'
          \<and> getMainColorBrightness s' = 725)"
proof -
  have h: "property_container example_controller MODE_FLAG_PARTY = Some (PBool False)"
      "property_container example_controller ''user_brightness'' = Some (PFloat 80)"
    by (simp_all add: example_defs)
  from main_color_setters_roundtrip[OF h, of 725] h show ?thesis by auto
qed

subsection \<open>C5: the flag setters\<close>

lemma constructed_store_flag:
  assumes "constructed s" and "flag \<in> set ALL_MODE_FLAGS"
  shows "constructed (s\<lparr>property_container := (property_container s)(flag \<mapsto> PBool v),
                        preferences := r\<rparr>)"
  using assms
  by (auto simp: constructed_def ALL_MODE_FLAGS_def MODE_FLAG_GLOW_WHEN_FINISHED_def
        MODE_FLAG_ON_WHEN_PRINTING_def MODE_FLAG_PARTY_def)

lemma constructed_flag_present:
  "constructed s \<Longrightarrow> flag \<in> set ALL_MODE_FLAGS \<Longrightarrow> \<exists>b. property_container s flag = Some (PBool b)"
  by (auto simp: constructed_def ALL_MODE_FLAGS_def is_bool_iff)

lemma setModeFlag_recognized:
  assumes "constructed s" and "flag \<in> set ALL_MODE_FLAGS"
  shows "\<exists>s1 s'. update (s\<lparr>property_container := (property_container s)(flag \<mapsto> PBool v),
                             preferences := registry_set (preferences s) flag (PBool v)\<rparr>) = Inr s1
            \<and> update s1 = Inr s'
            \<and> setModeFlag s flag v = Inr s'
            \<and> getModeFlag s' flag = Inr (PBool v)"
proof -
  let ?t = "s\<lparr>property_container := (property_container s)(flag \<mapsto> PBool v),
              preferences := registry_set (preferences s) flag (PBool v)\<rparr>"
  from constructed_flag_present[OF assms] obtain b where
    b: "property_container s flag = Some (PBool b)" by blast
  have ct: "constructed ?t" by (rule constructed_store_flag[OF assms])
  from constructed_update[OF ct] obtain s1 where
    s1: "update ?t = Inr s1" "same_settings ?t s1" "constructed s1" by blast
  from constructed_update[OF s1(3)] obtain s' where
    s': "update s1 = Inr s'" "same_settings s1 s'" by blast
  have "setModeFlag s flag v = Inr s'"
    using assms(2) b s1(1) s'(1) by (simp add: setModeFlag_def setPropertyValue_def then_do_def)
  moreover have "getModeFlag s' flag = Inr (PBool v)"
    using assms(2) s1(2) s'(2) by (simp add: getModeFlag_def container_get_def same_settings_def)
  ultimately show ?thesis using s1(1) s'(1) by blast
qed

lemma setRuntimeFlag_recognized:
  assumes "constructed s" and "flag \<in> set ALL_RUNTIME_FLAGS"
  shows "\<exists>s'. setRuntimeFlag s flag v = update (s\<lparr>runtime_flags := (runtime_flags s)(flag \<mapsto> v)\<rparr>)
            \<and> setRuntimeFlag s flag v = Inr s'
            \<and> getRuntimeFlag s' flag = Inr v"
proof -
  let ?t = "s\<lparr>runtime_flags := (runtime_flags s)(flag \<mapsto> v)\<rparr>"
  have "constructed ?t" using assms(1) by (simp add: constructed_def)
  from constructed_update[OF this] obtain s' where
    s': "update ?t = Inr s'" "same_settings ?t s'" by blast
  have "setRuntimeFlag s flag v = update ?t" using assms(2) by (simp add: setRuntimeFlag_def)
  moreover have "getRuntimeFlag s' flag = Inr v"
    using assms(2) s'(2) by (simp add: getRuntimeFlag_def same_settings_def)
  ultimately show ?thesis using s'(1) by simp
qed

text \<open>
  Claim C5. \<open>setModeFlag\<close> and \<open>setRuntimeFlag\<close> called with a name outside their
  closed sets fail with an assertion error and leave the controller as it was; called
  with a recognized name on a constructed controller they store the value (the getter
  returns it) and re-evaluate the priority policy.
\<close>

theorem flag_setters_validate:
  assumes "bad \<notin> set ALL_MODE_FLAGS" and "rbad \<notin> set ALL_RUNTIME_FLAGS"
      and "constructed s" and "flag \<in> set ALL_MODE_FLAGS" and "rflag \<in> set ALL_RUNTIME_FLAGS"
  shows "setModeFlag c bad v = Inl (AssertionError, c)
         \<and> setRuntimeFlag c rbad v = Inl (AssertionError, c)
         \<and> (\<exists>s1 s'. update (s\<lparr>property_container := (property_container s)(flag \<mapsto> PBool v),
                                   preferences := registry_set (preferences s) flag (PBool v)\<rparr>)
                        = Inr s1
                  \<and> update s1 = Inr s'
                  \<and> setModeFlag s flag v = Inr s'
                  \<and> getModeFlag s' flag = Inr (PBool v))
         \<and> (\<exists>s'. setRuntimeFlag s rflag v
                      = update (s\<lparr>runtime_flags := (runtime_flags s)(rflag \<mapsto> v)\<rparr>)
                \<and> setRuntimeFlag s rflag v = Inr s'
                \<and> getRuntimeFlag s' rflag = Inr v)"
proof -
  have 1: "setModeFlag c bad v = Inl (AssertionError, c)"
    using assms(1) by (simp add: setModeFlag_def)
  have 2: "setRuntimeFlag c rbad v = Inl (AssertionError, c)"
    using assms(2) by (simp add: setRuntimeFlag_def)
  show ?thesis
    using 1 2 setModeFlag_recognized[OF assms(3) assms(4), of v]
      setRuntimeFlag_recognized[OF assms(3) assms(5), of v]
    by blast
qed

theorem flag_setters_validate_witness:
  "''disco'' \<notin> set ALL_MODE_FLAGS \<and> ''party'' \<notin> set ALL_RUNTIME_FLAGS
   \<and> constructed example_controller
   \<and> ''party'' \<in> set ALL_MODE_FLAGS \<and> ''message'' \<in> set ALL_RUNTIME_FLAGS
   \<and> setModeFlag example_controller ''disco'' True = Inl (AssertionError, example_controller)
   \<and> setRuntimeFlag example_controller ''party'' True = Inl (AssertionError, example_controller)
   \<and> (\<exists>s'. setModeFlag example_controller ''party'' True = Inr s'
          \<and> getModeFlag s' ''party'' = Inr (PBool True))
   \<and> (\<exists>s'. setRuntimeFlag example_controller ''message'' True = Inr s'
          \<and> getRuntimeFlag s' ''message'' = Inr True)"
proof -
  have h: "''disco'' \<notin> set ALL_MODE_FLAGS" "''party'' \<notin> set ALL_RUNTIME_FLAGS"
      "constructed example_controller"
      "''party'' \<in> set ALL_MODE_FLAGS" "''message'' \<in> set ALL_RUNTIME_FLAGS"
    by (simp_all add: ALL_MODE_FLAGS_def ALL_RUNTIME_FLAGS_def MODE_FLAG_GLOW_WHEN_FINISHED_def
          MODE_FLAG_ON_WHEN_PRINTING_def constructed_def example_defs)
  from flag_setters_validate[OF h, of example_controller True] h show ?thesis
    by blast
qed

subsection \<open>C9: reset to the defaults\<close>

lemma reset_mode_flags_all:
  "reset_mode_flags ALL_MODE_FLAGS s =
     Inr (s\<lparr>preferences :=
              setAsBoolean
                (setAsBoolean
                   (setAsBoolean (preferences s) ''glow_when_print_is_finished'' True)
                   ''on_when_printing'' False)
                ''party'' False\<rparr>)"
  by (simp add: ALL_MODE_FLAGS_def DEFAULT_MODE_SETTINGS_def MODE_FLAG_GLOW_WHEN_FINISHED_def
        MODE_FLAG_ON_WHEN_PRINTING_def MODE_FLAG_PARTY_def)

lemma resetToDefaultValues_result:
  "resetToDefaultValues s =
     Inr (s\<lparr>preferences :=
              forceSave
                (setAsFloat
                   (setAsBoolean
                      (setAsBoolean
                         (setAsBoolean (preferences s) ''glow_when_print_is_finished'' True)
                         ''on_when_printing'' False)
                      ''party'' False)
                   ''user_brightness'' 100)\<rparr>)"
  by (simp add: resetToDefaultValues_def reset_mode_flags_all then_do_def)

text \<open>
  Claim C9. \<open>resetToDefaultValues\<close> writes the documented defaults into the settings
  store (\<open>glow_when_print_is_finished\<close> true, \<open>on_when_printing\<close> false, \<open>party\<close>
  false, \<open>user_brightness\<close> 100) and saves it before returning: whatever the settings
  were, a reload of the store reads these values.
\<close>

theorem resetToDefaultValues_persists:
  "\<exists>s'. resetToDefaultValues s = Inr s'
      \<and> disk (preferences s') ''glow_when_print_is_finished'' = Some (PBool True)
      \<and> disk (preferences s') ''on_when_printing'' = Some (PBool False)
      \<and> disk (preferences s') ''party'' = Some (PBool False)
      \<and> disk (preferences s') ''user_brightness'' = Some (PFloat 100)
      \<and> getAsBoolean (RegistryFile (disk (preferences s'))) ''glow_when_print_is_finished''
          = Inr True
      \<and> getAsBoolean (RegistryFile (disk (preferences s'))) ''on_when_printing'' = Inr False
      \<and> getAsBoolean (RegistryFile (disk (preferences s'))) ''party'' = Inr False
      \<and> getAsFloat (RegistryFile (disk (preferences s'))) ''user_brightness'' = Inr 100"
  by (simp add: resetToDefaultValues_result forceSave_def setAsFloat_def setAsBoolean_def
        registry_set_def RegistryFile_def getAsBoolean_def getAsFloat_def)

theorem resetToDefaultValues_persists_witness:
  "\<exists>s'. resetToDefaultValues
           (example_controller\<lparr>preferences :=
              RegistryFile [''party'' \<mapsto> PBool True, ''user_brightness'' \<mapsto> PFloat 12]\<rparr>) = Inr s'
      \<and> disk (preferences s') ''glow_when_print_is_finished'' = Some (PBool True)
      \<and> disk (preferences s') ''on_when_printing'' = Some (PBool False)
      \<and> disk (preferences s') ''party'' = Some (PBool False)
      \<and> disk (preferences s') ''user_brightness'' = Some (PFloat 100)"
  using resetToDefaultValues_persists
    [of "example_controller\<lparr>preferences :=
           RegistryFile [''party'' \<mapsto> PBool True, ''user_brightness'' \<mapsto> PFloat 12]\<rparr>"]
  by blast

subsection \<open>C2: the priority order of the button ring\<close>





subsection \<open>C3: the facade before the controllers exist\<close>

text \<open>
  Claim C3. While the owning controller has not been constructed, every float getter of
  the facade (hue, saturation, brightness of the main lighting and of the ring, and the
  user brightness) returns 0.0, every flag getter returns False, and every setter, blink
  and resetSettings return without an error and leave the service as it was.
\<close>

theorem facade_before_construction:
  assumes "main_controller m = None" and "button_ring_controller r = None"
  shows "getMainLightingHue m = 0 \<and> getMainLightingSaturation m = 0
         \<and> getMainLightingBrightness m = 0
         \<and> getMainLightingUserBrightness m = Inr (PFloat 0)
         \<and> getRingLightingHue r = 0 \<and> getRingLightingSaturation r = 0
         \<and> getRingLightingBrightness r = 0
         \<and> getMainLightingModeFlag m name = Inr (PBool False)
         \<and> getMainLightingRuntimeFlag m name = Inr False
         \<and> setMainLightingHue m x = Inr m \<and> setMainLightingSaturation m x = Inr m
         \<and> setMainLightingBrightness m x = Inr m
         \<and> setMainLightingUserBrightness m x = Inr m
         \<and> setRingLightingHue r x = Inr r \<and> setRingLightingSaturation r x = Inr r
         \<and> setRingLightingBrightness r x = Inr r
         \<and> setMainLightingModeFlag m name b = Inr m
         \<and> setMainLightingRuntimeFlag m name b = Inr m
         \<and> blinkMainLighting m f n = Inr m
         \<and> resetSettings m t = Inr m"
  using assms
  by (simp add: getMainLightingHue_def getMainLightingSaturation_def
        getMainLightingBrightness_def getMainLightingUserBrightness_def getRingLightingHue_def
        getRingLightingSaturation_def getRingLightingBrightness_def getMainLightingModeFlag_def
        getMainLightingRuntimeFlag_def setMainLightingHue_def setMainLightingSaturation_def
        setMainLightingBrightness_def setMainLightingUserBrightness_def setRingLightingHue_def
        setRingLightingSaturation_def setRingLightingBrightness_def setMainLightingModeFlag_def
        setMainLightingRuntimeFlag_def blinkMainLighting_def resetSettings_def)

theorem facade_before_construction_witness:
  "main_controller example_service = None \<and> button_ring_controller example_service = None
   \<and> getMainLightingHue example_service = 0
   \<and> getMainLightingUserBrightness example_service = Inr (PFloat 0)
   \<and> getRingLightingBrightness example_service = 0
   \<and> getMainLightingModeFlag example_service ''party'' = Inr (PBool False)
   \<and> getMainLightingModeFlag example_service ''disco'' = Inr (PBool False)
   \<and> getMainLightingRuntimeFlag example_service ''message'' = Inr False
   \<and> setMainLightingHue example_service 120 = Inr example_service
   \<and> setRingLightingHue example_service 120 = Inr example_service
   \<and> setMainLightingModeFlag example_service ''disco'' True = Inr example_service
   \<and> blinkMainLighting example_service 1 3 = Inr example_service
   \<and> resetSettings example_service ''hard'' = Inr example_service"
proof -
  have h: "main_controller example_service = None" "button_ring_controller example_service = None"
    by (simp_all add: example_service_def)
  from facade_before_construction[OF h, of "''party''" 120 True 1 3 "''hard''"]
    facade_before_construction[OF h, of "''disco''" 120 True 1 3 "''hard''"]
    facade_before_construction[OF h, of "''message''" 120 True 1 3 "''hard''"]
    h
  show ?thesis by simp
qed

subsection \<open>C10: the ring controller on machines that are not a UM3\<close>

lemma with_main_keeps:
  "button_ring_controller (state_after (with_main svc r)) = button_ring_controller svc
   \<and> machine_bom (state_after (with_main svc r)) = machine_bom svc"
  by (simp add: with_main_def state_after_def split: sum.splits prod.splits)

lemma start_keeps_bom: "machine_bom (state_after (start svc)) = machine_bom svc"
  by (simp add: start_def state_after_def Let_def split: sum.splits list.splits)

lemma start_no_ring:
  assumes "button_ring_controller svc = None"
      and "take 1 (machine_bom svc) \<noteq> [''9066'']" and "take 1 (machine_bom svc) \<noteq> [''9511'']"
  shows "button_ring_controller (state_after (start svc)) = None"
  using assms
  by (auto simp: start_def state_after_def Let_def split: sum.splits list.splits)

lemma service_signal_keeps:
  assumes "button_ring_controller svc = None"
      and "take 1 (machine_bom svc) \<noteq> [''9066'']" and "take 1 (machine_bom svc) \<noteq> [''9511'']"
  shows "button_ring_controller (state_after (service_onPrinterPropertyChanged svc key v)) = None
         \<and> machine_bom (state_after (service_onPrinterPropertyChanged svc key v)) = machine_bom svc"
  using start_no_ring[OF assms] start_keeps_bom[of svc] assms(1)
  by (simp add: service_onPrinterPropertyChanged_def onPrinterStateChanged_def state_after_def)

lemma then_do_state_after:
  assumes "\<And>s. P s \<Longrightarrow> P (state_after (f s))" and "P (state_after r)"
  shows "P (state_after (then_do r f))"
  using assms by (cases r) (auto simp: then_do_def state_after_def)

lemma deliver_keeps:
  assumes "button_ring_controller svc = None"
  shows "button_ring_controller (state_after (deliver_to_controllers a b key v svc)) = None
         \<and> machine_bom (state_after (deliver_to_controllers a b key v svc)) = machine_bom svc"
proof -
  let ?r = "case main_controller svc of
              Some c \<Rightarrow> if a then with_main svc (onPrinterPropertyChanged c key v) else Inr svc
            | None \<Rightarrow> Inr svc"
  have first: "button_ring_controller (state_after ?r) = None
               \<and> machine_bom (state_after ?r) = machine_bom svc"
    using assms with_main_keeps[of svc]
    by (cases "main_controller svc") (simp_all add: state_after_def)
  show ?thesis
  proof (cases ?r)
    case (Inl x)
    then show ?thesis using first by (simp add: deliver_to_controllers_def then_do_def)
  next
    case (Inr s1)
    then show ?thesis using first
      by (simp add: deliver_to_controllers_def then_do_def state_after_def)
  qed
qed

lemma main_call_keeps:
  assumes "ring_absent svc"
  shows "ring_absent
           (state_after (case main_controller svc of None \<Rightarrow> Inr svc | Some c \<Rightarrow> with_main svc (f c)))"
  using assms with_main_keeps[of svc]
  by (cases "main_controller svc") (simp_all add: ring_absent_def state_after_def)

lemma ring_call_keeps:
  assumes "ring_absent svc"
  shows "ring_absent
           (state_after (case button_ring_controller svc of None \<Rightarrow> Inr svc
                         | Some c \<Rightarrow> with_ring svc (f c)))"
  using assms by (simp add: ring_absent_def state_after_def)

lemma signal_keeps:
  assumes "ring_absent svc"
  shows "ring_absent (state_after (dispatch svc (PrinterPropertyChanged key v)))"
proof -
  let ?svc1 = "svc\<lparr>printer := (printer svc)(key := v)\<rparr>"
  have "ring_absent ?svc1" using assms by (simp add: ring_absent_def)
  then have 1: "ring_absent (state_after (service_onPrinterPropertyChanged ?svc1 key v))"
    using service_signal_keeps[of ?svc1 key v] by (simp add: ring_absent_def)
  have 2: "\<And>s a b. ring_absent s \<Longrightarrow> ring_absent (state_after (deliver_to_controllers a b key v s))"
    using deliver_keeps by (simp add: ring_absent_def)
  show ?thesis
    unfolding dispatch.simps
    by (rule then_do_state_after[where P = ring_absent]) (rule 2, assumption, rule 1)
qed

lemma dispatch_keeps:
  assumes "ring_absent svc"
  shows "ring_absent (state_after (dispatch svc ev))"
proof (cases ev)
  case (PrinterPropertyChanged key v)
  then show ?thesis using signal_keeps[OF assms] by simp
next
  case (SetRingLightingHue x)
  then show ?thesis using ring_call_keeps[OF assms] by (simp add: setRingLightingHue_def)
next
  case (SetRingLightingSaturation x)
  then show ?thesis using ring_call_keeps[OF assms] by (simp add: setRingLightingSaturation_def)
next
  case (SetRingLightingBrightness x)
  then show ?thesis using ring_call_keeps[OF assms] by (simp add: setRingLightingBrightness_def)
next
  case (ResetSettings t)
  then show ?thesis using main_call_keeps[OF assms] by (simp add: resetSettings_def)
next
  case (SetMainLightingHue x)
  then show ?thesis using main_call_keeps[OF assms] by (simp add: setMainLightingHue_def)
next
  case (SetMainLightingSaturation x)
  then show ?thesis using main_call_keeps[OF assms] by (simp add: setMainLightingSaturation_def)
next
  case (SetMainLightingBrightness x)
  then show ?thesis using main_call_keeps[OF assms] by (simp add: setMainLightingBrightness_def)
next
  case (SetMainLightingUserBrightness x)
  then show ?thesis using main_call_keeps[OF assms]
    by (simp add: setMainLightingUserBrightness_def)
next
  case (SetMainLightingModeFlag n b)
  then show ?thesis using main_call_keeps[OF assms] by (simp add: setMainLightingModeFlag_def)
next
  case (SetMainLightingRuntimeFlag n b)
  then show ?thesis using main_call_keeps[OF assms] by (simp add: setMainLightingRuntimeFlag_def)
next
  case (BlinkMainLighting f n)
  then show ?thesis using main_call_keeps[OF assms] by (simp add: blinkMainLighting_def)
next
  case TimerFired
  then show ?thesis using main_call_keeps[OF assms] by simp
qed

lemma run_keeps: "ring_absent svc \<Longrightarrow> ring_absent (run svc evs)"
proof (induction evs arbitrary: svc)
  case Nil
  then show ?case by (simp add: run_def)
next
  case (Cons ev evs)
  from Cons.IH[OF dispatch_keeps[OF Cons.prems, of ev]] show ?case by (simp add: run_def)
qed

lemma init_keeps:
  assumes "take 1 bom \<noteq> [''9066'']" and "take 1 bom \<noteq> [''9511'']"
  shows "ring_absent (state_after (LedService_init p bom th file rnd))"
proof -
  let ?svc0 = "\<lparr>running = False, main_controller = None, button_ring_controller = None,
        printer = p, machine_bom = bom, theme = th, settings_file = file, entropy = rnd\<rparr>"
  have 0: "ring_absent ?svc0" using assms by (simp add: ring_absent_def)
  then have "button_ring_controller ?svc0 = None" "take 1 (machine_bom ?svc0) \<noteq> [''9066'']"
      "take 1 (machine_bom ?svc0) \<noteq> [''9511'']"
    by (simp_all add: ring_absent_def)
  from start_no_ring[OF this] start_keeps_bom[of ?svc0] 0
  show ?thesis
    by (simp add: LedService_init_def onPrinterStateChanged_def ring_absent_def state_after_def)
qed

text \<open>
  Claim C10. On a machine whose first bill-of-materials entry is neither \<open>9066\<close> nor
  \<open>9511\<close>, \<open>__start\<close> never keeps a ring controller: after the service's
  construction and any sequence of later events (among them the end of booting), the
  ring controller is still \<open>None\<close>, every ring getter of the facade returns 0.0 and
  every ring setter leaves the service as it was.
\<close>

theorem ring_controller_never_assigned:
  assumes "take 1 bom \<noteq> [''9066'']" and "take 1 bom \<noteq> [''9511'']"
      and "svc = run (state_after (LedService_init p bom th file rnd)) evs"
  shows "button_ring_controller svc = None
         \<and> getRingLightingHue svc = 0 \<and> getRingLightingSaturation svc = 0
         \<and> getRingLightingBrightness svc = 0
         \<and> setRingLightingHue svc x = Inr svc \<and> setRingLightingSaturation svc x = Inr svc
         \<and> setRingLightingBrightness svc x = Inr svc"
proof -
  from run_keeps[OF init_keeps[OF assms(1) assms(2)]] assms(3)
  have "button_ring_controller svc = None" by (simp add: ring_absent_def)
  then show ?thesis
    by (simp add: getRingLightingHue_def getRingLightingSaturation_def
          getRingLightingBrightness_def setRingLightingHue_def setRingLightingSaturation_def
          setRingLightingBrightness_def)
qed

lemma example_start_runs:
  "running (state_after (LedService_init example_printer [''9051'', ''2''] example_theme
                           Map.empty (\<lambda>n. 1 / 4)))"
  by (simp add: LedService_init_def onPrinterStateChanged_def example_printer_def start_def
        state_after_def Let_def split: sum.splits list.splits)

theorem ring_controller_never_assigned_witness:
  "take 1 [''9051'', ''2''] \<noteq> [''9066''] \<and> take 1 [''9051'', ''2''] \<noteq> [''9511'']
   \<and> running (state_after (LedService_init example_printer [''9051'', ''2''] example_theme
                             Map.empty (\<lambda>n. 1 / 4)))
   \<and> button_ring_controller
        (run (state_after (LedService_init example_printer [''9051'', ''2''] example_theme
                             Map.empty (\<lambda>n. 1 / 4)))
           [PrinterPropertyChanged ''state'' (VStr ''printing''), SetRingLightingHue 120]) = None
   \<and> getRingLightingHue
        (run (state_after (LedService_init example_printer [''9051'', ''2''] example_theme
                             Map.empty (\<lambda>n. 1 / 4)))
           [PrinterPropertyChanged ''state'' (VStr ''printing''), SetRingLightingHue 120]) = 0
   \<and> setRingLightingHue
        (run (state_after (LedService_init example_printer [''9051'', ''2''] example_theme
                             Map.empty (\<lambda>n. 1 / 4)))
           [PrinterPropertyChanged ''state'' (VStr ''printing''), SetRingLightingHue 120]) 200
       = Inr (run (state_after (LedService_init example_printer [''9051'', ''2''] example_theme
                             Map.empty (\<lambda>n. 1 / 4)))
           [PrinterPropertyChanged ''state'' (VStr ''printing''), SetRingLightingHue 120])"
proof -
  have h: "take 1 [''9051'', ''2''] \<noteq> [''9066'']" "take 1 [''9051'', ''2''] \<noteq> [''9511'']"
    by simp_all
  from ring_controller_never_assigned[OF h refl, of example_printer example_theme Map.empty
         "\<lambda>n. 1 / 4" "[PrinterPropertyChanged ''state'' (VStr ''printing''), SetRingLightingHue 120]"
         200]
    h example_start_runs
  show ?thesis by blast
qed


end
